theory Spec2Isabelle
  imports Complex_Main "HOL-Library.Word"
begin

section \<open>Python values, exceptions and built-ins\<close>

text \<open>
  The module \<^verbatim>\<open>r2_facial_recognition/client/local/recognition.py\<close> is Python 3 (it uses
  f-strings and annotations). Every exception the code can raise is a value of \<open>pyerr\<close>;
  a computation that may raise returns \<open>pyerr + 'a\<close>, with \<open>Inl\<close> for the exception.
  \<open>OSError\<close> stands for the whole class that \<^verbatim>\<open>except OSError\<close> catches
  (FileNotFoundError, IsADirectoryError, PermissionError, ...).
\<close>

datatype pyerr = OSError | ValueError | TypeError | IndexError | EOFError | RuntimeError

type_synonym byte = "8 word"

text \<open>
  An encoding is a one-dimensional numpy array of float64; it is kept as the list of the
  IEEE-754 bit patterns of its elements, so that nothing here depends on floating-point
  arithmetic. A bounding box is the 4-tuple of ints that the detector returns.
\<close>

type_synonym encoding = "64 word list"
type_synonym box = "int \<times> int \<times> int \<times> int"

text \<open>
  A Python 3.7 dict keeps its keys in insertion order; \<^verbatim>\<open>list(mappings.items())\<close> reads
  them in that order. The registry is the association list of its items. Assignment
  \<^verbatim>\<open>d[k] = v\<close> replaces the value of an existing key in place and appends a new key.
\<close>

type_synonym registry = "(string \<times> encoding) list"

fun dict_set :: "'k \<Rightarrow> 'v \<Rightarrow> ('k \<times> 'v) list \<Rightarrow> ('k \<times> 'v) list" where
  "dict_set k v [] = [(k, v)]"
| "dict_set k v (kv # rest) =
     (if fst kv = k then (k, v) # rest else kv # dict_set k v rest)"

definition py_bind :: "pyerr + 'a \<Rightarrow> ('a \<Rightarrow> pyerr + 'b) \<Rightarrow> pyerr + 'b" where
  "py_bind r f = (case r of Inl e \<Rightarrow> Inl e | Inr x \<Rightarrow> f x)"

text \<open>\<^verbatim>\<open>xs[i]\<close> for a non-negative index: IndexError out of range.\<close>

definition py_getitem :: "'a list \<Rightarrow> nat \<Rightarrow> pyerr + 'a" where
  "py_getitem xs i = (if i < length xs then Inr (xs ! i) else Inl IndexError)"

text \<open>\<^verbatim>\<open>s[i]\<close> on a string gives the string of that one character.\<close>

definition str_getitem :: "string \<Rightarrow> nat \<Rightarrow> pyerr + string" where
  "str_getitem s i = (if i < length s then Inr [s ! i] else Inl IndexError)"

text \<open>\<^verbatim>\<open>s.rfind(c)\<close> as an option, and \<^verbatim>\<open>s.rindex(c)\<close>, which raises ValueError.\<close>

fun rfind :: "char \<Rightarrow> string \<Rightarrow> nat option" where
  "rfind c [] = None"
| "rfind c (x # xs) =
     (case rfind c xs of
        Some i \<Rightarrow> Some (Suc i)
      | None \<Rightarrow> (if x = c then Some 0 else None))"

definition rindex :: "string \<Rightarrow> char \<Rightarrow> pyerr + nat" where
  "rindex s c = (case rfind c s of None \<Rightarrow> Inl ValueError | Some i \<Rightarrow> Inr i)"

text \<open>
  The built-in \<^verbatim>\<open>map\<close> of Python 3 returns a one-shot iterator, not a list: it has no
  \<^verbatim>\<open>len()\<close>. A sequence argument is therefore either a list or a map object over the
  elements it would yield.
\<close>

datatype 'a pyseq = PyList "'a list" | PyMap "'a list"

fun py_len :: "'a pyseq \<Rightarrow> pyerr + nat" where
  "py_len (PyList xs) = Inr (length xs)"
| "py_len (PyMap xs) = Inl TypeError"

section \<open>posixpath\<close>

definition os_path_join :: "string \<Rightarrow> string \<Rightarrow> string" where
  "os_path_join a b =
     (if b \<noteq> [] \<and> hd b = CHR ''/'' then b
      else if a = [] then b
      else if last a = CHR ''/'' then a @ b
      else a @ ''/'' @ b)"

definition rstrip_sep :: "string \<Rightarrow> string" where
  "rstrip_sep s = rev (dropWhile (\<lambda>c. c = CHR ''/'') (rev s))"

definition os_path_split :: "string \<Rightarrow> string \<times> string" where
  "os_path_split p =
     (let i = (case rfind CHR ''/'' p of None \<Rightarrow> 0 | Some j \<Rightarrow> Suc j);
          head = take i p;
          tail = drop i p
      in (if head \<noteq> [] \<and> filter (\<lambda>c. c \<noteq> CHR ''/'') head \<noteq> []
          then rstrip_sep head else head, tail))"

section \<open>The world the module runs in\<close>

text \<open>
  Regular files are a map from the path string handed to \<^verbatim>\<open>open\<close> to the content;
  \<^verbatim>\<open>os.path.isfile(p)\<close> holds when \<open>p\<close> is a key of it. \<open>embed_calls\<close> logs every call
  of \<^verbatim>\<open>face_recognition.face_encodings\<close> on a reference image (by the path of the image);
  \<open>stdout\<close> logs what \<^verbatim>\<open>print\<close> writes.
\<close>

record world =
  files :: "string \<rightharpoonup> byte list"
  embed_calls :: "string list"
  stdout :: "string list"

text \<open>Directories: \<^verbatim>\<open>os.path.isdir\<close>, and the \<^verbatim>\<open>files\<close> component of each triple of \<^verbatim>\<open>os.walk\<close>.\<close>

record os_env =
  isdir :: "string \<Rightarrow> bool"
  walk :: "string \<Rightarrow> string list list"

text \<open>
  A float64 as numpy compares it: a finite number, an infinity, or NaN. \<^verbatim>\<open>a <= b\<close> is
  false as soon as one side is NaN.
\<close>

datatype npfloat = Fin real | PosInf | NegInf | NaN

fun isnan :: "npfloat \<Rightarrow> bool" where
  "isnan NaN = True"
| "isnan (Fin a) = False"
| "isnan PosInf = False"
| "isnan NegInf = False"

fun np_le :: "npfloat \<Rightarrow> npfloat \<Rightarrow> bool" where
  "np_le NaN b = False"
| "np_le a NaN = False"
| "np_le NegInf b = True"
| "np_le a PosInf = True"
| "np_le (Fin a) (Fin b) = (a \<le> b)"
| "np_le a b = False"

text \<open>
  The opaque parts of the libraries: image decoding, the face detector, the embedding
  network, numpy's norm of a difference of float arrays, and numpy's parser of the
  \<^verbatim>\<open>.npy\<close>/\<^verbatim>\<open>.npz\<close> container.
\<close>

record 'img collab =
  load_image_file :: "byte list \<Rightarrow> pyerr + 'img"
  face_locations :: "'img \<Rightarrow> box list"
  face_encodings :: "'img \<Rightarrow> box list option \<Rightarrow> encoding list"
  norm_diff :: "encoding \<Rightarrow> encoding \<Rightarrow> npfloat"
  npy_parse :: "byte list \<Rightarrow> pyerr + encoding"

section \<open>numpy\<close>

text \<open>\<^verbatim>\<open>ndarray.tobytes()\<close> of a float64 vector: eight bytes per element, least significant first.\<close>

definition float64_bytes :: "64 word \<Rightarrow> byte list" where
  "float64_bytes w = map (\<lambda>i. ucast (drop_bit (8 * i) w)) [0..<8]"

definition tobytes :: "encoding \<Rightarrow> byte list" where
  "tobytes e = concat (map float64_bytes e)"

text \<open>
  \<^verbatim>\<open>numpy.load(path, allow_pickle=False)\<close>: opening a missing file is an OSError; an empty
  file is an EOFError; a file that starts with the \<^verbatim>\<open>.npy\<close> magic \<^verbatim>\<open>\x93NUMPY\<close> or with a
  zip signature is handed to the container parser; anything else is taken for a pickle,
  which \<^verbatim>\<open>allow_pickle=False\<close> refuses with a ValueError.
\<close>

definition npy_magic :: "byte list" where
  "npy_magic = [0x93, 0x4E, 0x55, 0x4D, 0x50, 0x59]"

definition zip_prefix :: "byte list" where
  "zip_prefix = [0x50, 0x4B, 0x03, 0x04]"

definition zip_suffix :: "byte list" where
  "zip_suffix = [0x50, 0x4B, 0x05, 0x06]"

definition startswith :: "'a list \<Rightarrow> 'a list \<Rightarrow> bool" where
  "startswith s p = (take (length p) s = p)"

definition numpy_load :: "(byte list \<Rightarrow> pyerr + encoding) \<Rightarrow> (string \<rightharpoonup> byte list) \<Rightarrow> string
    \<Rightarrow> pyerr + encoding" where
  "numpy_load parse fs p =
     (case fs p of
        None \<Rightarrow> Inl OSError
      | Some bs \<Rightarrow>
          (let magic = take 6 bs in
           if magic = [] then Inl EOFError
           else if startswith magic zip_prefix then parse bs
           else if startswith magic zip_suffix then parse bs
           else if magic = npy_magic then parse bs
           else Inl ValueError))"

text \<open>
  \<^verbatim>\<open>numpy.argmin\<close> of a one-dimensional float array: ValueError on an empty one; the index
  of the first NaN when the array holds one; else the index of the first occurrence of
  the minimum.
\<close>

fun first_min_index :: "npfloat list \<Rightarrow> nat" where
  "first_min_index [] = 0"
| "first_min_index [d] = 0"
| "first_min_index (d # ds) =
     (let i = first_min_index ds in
      if isnan d then 0
      else if isnan (ds ! i) then Suc i
      else if np_le d (ds ! i) then 0
      else Suc i)"

definition numpy_argmin :: "npfloat list \<Rightarrow> pyerr + nat" where
  "numpy_argmin ds = (if ds = [] then Inl ValueError else Inr (first_min_index ds))"

section \<open>face_recognition\<close>

text \<open>
  \<^verbatim>\<open>face_recognition.face_distance(face_encodings, face_to_compare)\<close> takes the
  \<^verbatim>\<open>len()\<close> of its first argument, returns an empty array when it is 0, and otherwise
  the norm of the difference to each row. \<^verbatim>\<open>compare_faces\<close> is the list of
  \<^verbatim>\<open>face_distance(...) <= tolerance\<close>, with the default tolerance 0.6.
\<close>

definition face_distance :: "(encoding \<Rightarrow> encoding \<Rightarrow> npfloat) \<Rightarrow> encoding pyseq
    \<Rightarrow> encoding \<Rightarrow> pyerr + npfloat list" where
  "face_distance nd face_encs face_to_compare =
     py_bind (py_len face_encs) (\<lambda>n.
       if n = 0 then Inr []
       else (case face_encs of
               PyList ks \<Rightarrow> Inr (map (\<lambda>k. nd k face_to_compare) ks)
             | PyMap ks \<Rightarrow> Inl TypeError))"

definition compare_faces :: "(encoding \<Rightarrow> encoding \<Rightarrow> npfloat) \<Rightarrow> encoding pyseq
    \<Rightarrow> encoding \<Rightarrow> pyerr + bool list" where
  "compare_faces nd known_face_encodings face_encoding_to_check =
     py_bind (face_distance nd known_face_encodings face_encoding_to_check)
       (\<lambda>ds. Inr (map (\<lambda>d. np_le d (Fin (6 / 10))) ds))"

section \<open>The cache\<close>

definition get_cached :: "(byte list \<Rightarrow> pyerr + encoding) \<Rightarrow> string \<Rightarrow> string
    \<Rightarrow> (string \<rightharpoonup> byte list) \<Rightarrow> pyerr + encoding" where
  "get_cached parse name cache_location fs =
     numpy_load parse fs (os_path_join cache_location (name @ ''.encoding''))"

text \<open>
  An open binary file is its content and the position. Mode \<^verbatim>\<open>'rb+'\<close> opens an existing
  file for reading and writing and raises FileNotFoundError (an OSError) when there is
  none; it never creates a file.
\<close>

type_synonym handle = "byte list \<times> nat"

definition open_rb_plus :: "(string \<rightharpoonup> byte list) \<Rightarrow> string \<Rightarrow> pyerr + handle" where
  "open_rb_plus fs p = (case fs p of None \<Rightarrow> Inl OSError | Some bs \<Rightarrow> Inr (bs, 0))"

definition file_seek :: "nat \<Rightarrow> handle \<Rightarrow> handle" where
  "file_seek n f = (fst f, n)"

definition file_truncate :: "handle \<Rightarrow> handle" where
  "file_truncate f = (take (snd f) (fst f) @ replicate (snd f - length (fst f)) 0, snd f)"

definition file_write :: "byte list \<Rightarrow> handle \<Rightarrow> handle" where
  "file_write bs f =
     (let content = fst f @ replicate (snd f - length (fst f)) 0
      in (take (snd f) content @ bs @ drop (snd f + length bs) content, snd f + length bs))"

definition add_cache :: "string \<Rightarrow> encoding \<Rightarrow> string \<Rightarrow> (string \<rightharpoonup> byte list)
    \<Rightarrow> pyerr + (string \<rightharpoonup> byte list)" where
  "add_cache name enc cache_location fs =
     (let p = os_path_join cache_location (name @ ''.encoding'') in
      py_bind (open_rb_plus fs p) (\<lambda>f.
        Inr (fs(p \<mapsto> fst (file_write (tobytes enc) (file_truncate (file_seek 0 f)))))))"

section \<open>load\_images\<close>

definition CACHE_LOCATION :: string where
  "CACHE_LOCATION = ''.cache''"

definition IMG_EXTs :: "string list" where
  "IMG_EXTs = [''.jpg'', ''.jpeg'', ''.png'']"

text \<open>
  \<^verbatim>\<open>face_recognition.face_encodings(face_recognition.load_image_file(
  os.path.join(path_, file_)))[0]\<close>: the image file is opened (OSError when missing or
  undecodable), the embedder is called, and the first encoding taken (IndexError when
  no face was found).
\<close>

definition first_encoding :: "'img collab \<Rightarrow> string \<Rightarrow> string \<Rightarrow> world
    \<Rightarrow> (pyerr + encoding) \<times> world" where
  "first_encoding c path' file' w =
     (let p = os_path_join path' file' in
      case files w p of
        None \<Rightarrow> (Inl OSError, w)
      | Some bs \<Rightarrow>
          (case load_image_file c bs of
             Inl e \<Rightarrow> (Inl e, w)
           | Inr img \<Rightarrow>
               (py_getitem (face_encodings c img None) 0,
                w\<lparr>embed_calls := embed_calls w @ [p]\<rparr>)))"

text \<open>
  The closure \<^verbatim>\<open>check_and_add\<close>. The dict \<^verbatim>\<open>mappings\<close> is mutated in place, so it is part
  of the state that is returned, also when an exception leaves the function.
\<close>

definition check_and_add :: "'img collab \<Rightarrow> bool \<Rightarrow> string \<Rightarrow> string \<Rightarrow> string
    \<Rightarrow> registry \<times> world \<Rightarrow> (pyerr + unit) \<times> registry \<times> world" where
  "check_and_add c cache cache_location path' file' st =
     (let mappings = fst st; w = snd st in
      case rindex file' CHR ''.'' of
        Inl e \<Rightarrow> (Inl e, mappings, w)
      | Inr dot \<Rightarrow>
          (let filename' = take dot file' in
           if cache then
             (case get_cached (npy_parse c) file' cache_location (files w) of
                Inr cached \<Rightarrow> (Inr (), dict_set filename' cached mappings, w)
              | Inl err \<Rightarrow>
                  (if err = OSError then
                     (case first_encoding c path' file' w of
                        (Inl e, w1) \<Rightarrow> (Inl e, mappings, w1)
                      | (Inr encoding, w1) \<Rightarrow>
                          (case add_cache filename' encoding cache_location (files w1) of
                             Inl e \<Rightarrow> (Inl e, mappings, w1)
                           | Inr fs \<Rightarrow>
                               (Inr (), dict_set filename' encoding mappings,
                                w1\<lparr>files := fs\<rparr>)))
                   else (Inl err, mappings, w)))
           else
             (case first_encoding c path' file' w of
                (Inl e, w1) \<Rightarrow> (Inl e, mappings, w1)
              | (Inr encoding, w1) \<Rightarrow> (Inr (), dict_set filename' encoding mappings, w1))))"

text \<open>The body of \<^verbatim>\<open>for file in files\<close>, the loop itself, and the loop over \<^verbatim>\<open>os.walk\<close>.\<close>

definition visit_file :: "'img collab \<Rightarrow> bool \<Rightarrow> string \<Rightarrow> string \<Rightarrow> string
    \<Rightarrow> registry \<times> world \<Rightarrow> (pyerr + unit) \<times> registry \<times> world" where
  "visit_file c cache cache_location path file st =
     (case rindex file CHR ''.'' of
        Inl e \<Rightarrow> (Inl e, st)
      | Inr ext_idx \<Rightarrow>
          (case str_getitem file (ext_idx + 1) of
             Inl e \<Rightarrow> (Inl e, st)
           | Inr ch \<Rightarrow>
               (if ch \<in> set IMG_EXTs then
                  (let st1 = (fst st, (snd st)\<lparr>stdout := stdout (snd st) @
                                [file @ '' was loaded in as a recognized face.'']\<rparr>)
                   in case rindex file CHR ''.'' of
                        Inl e \<Rightarrow> (Inl e, st1)
                      | Inr dot \<Rightarrow>
                          check_and_add c cache cache_location path (take dot file) st1)
                else (Inr (), st))))"

fun visit_files :: "'img collab \<Rightarrow> bool \<Rightarrow> string \<Rightarrow> string \<Rightarrow> string list
    \<Rightarrow> registry \<times> world \<Rightarrow> (pyerr + unit) \<times> registry \<times> world" where
  "visit_files c cache cache_location path [] st = (Inr (), st)"
| "visit_files c cache cache_location path (file # rest) st =
     (case visit_file c cache cache_location path file st of
        (Inl e, st1) \<Rightarrow> (Inl e, st1)
      | (Inr u, st1) \<Rightarrow> visit_files c cache cache_location path rest st1)"

fun visit_walk :: "'img collab \<Rightarrow> bool \<Rightarrow> string \<Rightarrow> string \<Rightarrow> string list list
    \<Rightarrow> registry \<times> world \<Rightarrow> (pyerr + unit) \<times> registry \<times> world" where
  "visit_walk c cache cache_location path [] st = (Inr (), st)"
| "visit_walk c cache cache_location path (fs # rest) st =
     (case visit_files c cache cache_location path fs st of
        (Inl e, st1) \<Rightarrow> (Inl e, st1)
      | (Inr u, st1) \<Rightarrow> visit_walk c cache cache_location path rest st1)"

definition extension_warning :: string where
  "extension_warning = ''Warning: file being explicitly loaded does not have .jpg '' @
     ''extension. Make sure this is actually an image file.''"

text \<open>
  \<^verbatim>\<open>load_images(path, mappings, cache, cache_location)\<close>. The argument \<open>None\<close> stands for
  the default \<^verbatim>\<open>mappings=None\<close>. The result is the outcome together with the dict (the
  object that \<^verbatim>\<open>return mappings\<close> returns) and the world after the call.
\<close>

definition load_images :: "'img collab \<Rightarrow> os_env \<Rightarrow> string \<Rightarrow> registry option \<Rightarrow> bool
    \<Rightarrow> string \<Rightarrow> world \<Rightarrow> (pyerr + unit) \<times> registry \<times> world" where
  "load_images c env path mappings_arg cache cache_location w =
     (let mappings = (case mappings_arg of None \<Rightarrow> [] | Some m \<Rightarrow> m) in
      if isdir env path then
        visit_walk c cache cache_location path (walk env path) (mappings, w)
      else if files w path \<noteq> None then
        (case rindex path CHR ''.'' of
           Inl e \<Rightarrow> (Inl e, mappings, w)
         | Inr ext_idx \<Rightarrow>
             (case str_getitem path (ext_idx + 1) of
                Inl e \<Rightarrow> (Inl e, mappings, w)
              | Inr ch \<Rightarrow>
                  (let w1 = (if ch \<in> set IMG_EXTs then w
                             else w\<lparr>stdout := stdout w @ [extension_warning]\<rparr>)
                   in check_and_add c cache cache_location
                        (fst (os_path_split path)) (snd (os_path_split path))
                        (mappings, w1))))
      else (Inl RuntimeError, mappings, w))"

section \<open>check\_faces\<close>

text \<open>
  What one call of \<^verbatim>\<open>check_faces\<close> does with the known encodings is logged: every call
  of \<^verbatim>\<open>compare_faces\<close> and \<^verbatim>\<open>face_distance\<close> that is handed \<^verbatim>\<open>known_encodings\<close>, and the
  distance and name of every line it prints.
\<close>

datatype event = CompareFaces | FaceDistance | Report npfloat string

text \<open>The body of the loop over the unknown faces, for one face.\<close>

definition identify :: "'img collab \<Rightarrow> registry \<Rightarrow> encoding pyseq \<Rightarrow> encoding
    \<Rightarrow> (pyerr + string) \<times> event list" where
  "identify c ordered_map known_encodings unknown_face =
     (case compare_faces (norm_diff c) known_encodings unknown_face of
        Inl e \<Rightarrow> (Inl e, [CompareFaces])
      | Inr matches \<Rightarrow>
          (case face_distance (norm_diff c) known_encodings unknown_face of
             Inl e \<Rightarrow> (Inl e, [CompareFaces, FaceDistance])
           | Inr face_distances \<Rightarrow>
               (case py_bind (numpy_argmin face_distances) (\<lambda>closest_idx.
                       py_bind (py_getitem face_distances closest_idx) (\<lambda>distance.
                       py_bind (py_getitem matches closest_idx) (\<lambda>matched.
                       py_bind (if matched
                                then py_bind (py_getitem ordered_map closest_idx)
                                       (\<lambda>item. Inr (fst item))
                                else Inr ''Unknown'') (\<lambda>name.
                       Inr (distance, name))))) of
                  Inl e \<Rightarrow> (Inl e, [CompareFaces, FaceDistance])
                | Inr (distance, name) \<Rightarrow>
                    (Inr name, [CompareFaces, FaceDistance, Report distance name]))))"

fun identify_all :: "'img collab \<Rightarrow> registry \<Rightarrow> encoding pyseq \<Rightarrow> encoding list
    \<Rightarrow> string list \<Rightarrow> event list \<Rightarrow> (pyerr + string list) \<times> event list" where
  "identify_all c ordered_map known_encodings [] identities tr = (Inr identities, tr)"
| "identify_all c ordered_map known_encodings (unknown_face # rest) identities tr =
     (case identify c ordered_map known_encodings unknown_face of
        (Inl e, evs) \<Rightarrow> (Inl e, tr @ evs)
      | (Inr name, evs) \<Rightarrow>
          identify_all c ordered_map known_encodings rest (identities @ [name]) (tr @ evs))"

text \<open>
  \<^verbatim>\<open>check_faces(img, mappings)\<close>: the outcome, the dict \<^verbatim>\<open>mappings\<close> as it is after the call,
  and the log.
\<close>

definition check_faces :: "'img collab \<Rightarrow> 'img \<Rightarrow> registry
    \<Rightarrow> (pyerr + string list \<times> box list) \<times> registry \<times> event list" where
  "check_faces c img mappings =
     (let ordered_map = mappings;
          known_encodings = PyMap (map snd ordered_map);
          unknown_face_locations = face_locations c img;
          unknown_face_encodings = face_encodings c img (Some unknown_face_locations)
      in case identify_all c ordered_map known_encodings unknown_face_encodings [] [] of
           (Inl e, tr) \<Rightarrow> (Inl e, mappings, tr)
         | (Inr identities, tr) \<Rightarrow>
             (Inr (identities, unknown_face_locations), mappings, tr))"

section \<open>Concrete inputs\<close>

text \<open>
  Collaborators with fixed answers: the detector finds the boxes \<open>locs\<close>, the embedder
  returns \<open>encs\<close>, every file decodes. A directory \<^verbatim>\<open>faces\<close> holding the files \<open>fs\<close>, an
  environment without directories, and two worlds: one with a reference image, one that
  also has an (empty) cache entry for it.
\<close>

definition stub_collab :: "box list \<Rightarrow> encoding list \<Rightarrow> (encoding \<Rightarrow> encoding \<Rightarrow> npfloat)
    \<Rightarrow> unit collab" where
  "stub_collab locs encs nd =
     \<lparr>load_image_file = (\<lambda>bs. Inr ()), face_locations = (\<lambda>img. locs),
      face_encodings = (\<lambda>img known. encs), norm_diff = nd,
      npy_parse = (\<lambda>bs. Inl ValueError)\<rparr>"

definition faces_dir :: "string list \<Rightarrow> os_env" where
  "faces_dir fs =
     \<lparr>isdir = (\<lambda>p. p = ''faces''), walk = (\<lambda>p. if p = ''faces'' then [fs] else [])\<rparr>"


definition faces_world :: world where
  "faces_world =
     \<lparr>files = [''faces/alice.jpg'' \<mapsto> [0xFF, 0xD8, 0xFF]], embed_calls = [], stdout = []\<rparr>"


section \<open>The dict\<close>







lemma dict_set_new_key: "k \<notin> fst ` set m \<Longrightarrow> dict_set k v m = m @ [(k, v)]"
  by (induction m) auto

section \<open>numpy.argmin picks the first NaN, else the first minimum\<close>

lemma np_le_trans: "np_le a b \<Longrightarrow> np_le b c \<Longrightarrow> np_le a c"
  by (cases a; cases b; cases c) simp_all

lemma np_le_total: "\<not> isnan a \<Longrightarrow> \<not> isnan b \<Longrightarrow> \<not> np_le a b \<Longrightarrow> np_le b a"
  by (cases a; cases b) simp_all

lemma first_min_index_less: "ds \<noteq> [] \<Longrightarrow> first_min_index ds < length ds"
  by (induction ds rule: first_min_index.induct) (simp_all add: Let_def)

lemma first_min_index_nan:
  "j < length ds \<Longrightarrow> isnan (ds ! j) \<Longrightarrow> isnan (ds ! first_min_index ds)"
proof (induction ds arbitrary: j rule: first_min_index.induct)
  case 1
  then show ?case by simp
next
  case (2 d)
  then show ?case by simp
next
  case (3 d e es)
  show ?case
  proof (cases j)
    case 0
    with "3.prems" show ?thesis by (simp add: Let_def)
  next
    case (Suc k)
    with "3.prems" have "k < length (e # es)" and "isnan ((e # es) ! k)" by simp_all
    then have "isnan ((e # es) ! first_min_index (e # es))" by (rule "3.IH")
    then show ?thesis by (simp add: Let_def)
  qed
qed

lemma first_min_index_least:
  "j < length ds \<Longrightarrow> \<not> isnan (ds ! first_min_index ds) \<Longrightarrow>
     np_le (ds ! first_min_index ds) (ds ! j)"
proof (induction ds arbitrary: j rule: first_min_index.induct)
  case 1
  then show ?case by simp
next
  case (2 d)
  then show ?case by (cases d) simp_all
next
  case (3 d e es)
  let ?i = "first_min_index (e # es)"
  from "3.prems"(2) have nd: "\<not> isnan d"
    by (auto simp: Let_def split: if_splits)
  from "3.prems"(2) nd have ni: "\<not> isnan ((e # es) ! ?i)"
    by (auto simp: Let_def split: if_splits)
  have rest: "np_le ((e # es) ! ?i) ((e # es) ! k)" if "k < length (e # es)" for k
    using that ni by (rule "3.IH")
  show ?case
  proof (cases "np_le d ((e # es) ! ?i)")
    case True
    show ?thesis
    proof (cases j)
      case 0
      with nd ni True show ?thesis by (cases d) (simp_all add: Let_def)
    next
      case (Suc k)
      with "3.prems" have "k < length (e # es)" by simp
      then have "np_le ((e # es) ! ?i) ((e # es) ! k)" by (rule rest)
      with True have "np_le d ((e # es) ! k)" by (rule np_le_trans)
      with nd ni True Suc show ?thesis by (simp add: Let_def)
    qed
  next
    case False
    show ?thesis
    proof (cases j)
      case 0
      from nd ni False have "np_le ((e # es) ! ?i) d" by (rule np_le_total)
      with nd ni False 0 show ?thesis by (simp add: Let_def)
    next
      case (Suc k)
      with "3.prems" have "k < length (e # es)" by simp
      then have "np_le ((e # es) ! ?i) ((e # es) ! k)" by (rule rest)
      with nd ni False Suc show ?thesis by (simp add: Let_def)
    qed
  qed
qed

lemma first_min_index_first:
  "j < first_min_index ds \<Longrightarrow>
     \<not> isnan (ds ! j) \<and> \<not> np_le (ds ! j) (ds ! first_min_index ds)"
proof (induction ds arbitrary: j rule: first_min_index.induct)
  case 1
  then show ?case by simp
next
  case (2 d)
  then show ?case by simp
next
  case (3 d e es)
  let ?i = "first_min_index (e # es)"
  from "3.prems" have nd: "\<not> isnan d"
    by (auto simp: Let_def split: if_splits)
  from "3.prems" nd have sel: "first_min_index (d # e # es) = Suc ?i"
    by (auto simp: Let_def split: if_splits)
  from "3.prems" nd have worse: "isnan ((e # es) ! ?i) \<or> \<not> np_le d ((e # es) ! ?i)"
    by (auto simp: Let_def split: if_splits)
  show ?case
  proof (cases j)
    case 0
    from worse have "\<not> np_le d ((e # es) ! ?i)"
      by (cases d; cases "(e # es) ! ?i") simp_all
    with nd 0 sel show ?thesis by simp
  next
    case (Suc k)
    with "3.prems" sel have "k < ?i" by simp
    then have "\<not> isnan ((e # es) ! k) \<and> \<not> np_le ((e # es) ! k) ((e # es) ! ?i)"
      by (rule "3.IH")
    with Suc sel show ?thesis by simp
  qed
qed

section \<open>The loop body of check\_faces\<close>

text \<open>
  Handed the known encodings as a list, the loop body labels a face with the identity at
  the index that \<^verbatim>\<open>numpy.argmin\<close> returns (the first minimum distance, or the first NaN)
  when the match flag of that identity is true, and with Unknown otherwise; on an empty list \<^verbatim>\<open>numpy.argmin\<close> raises. Handed the map object that
  \<^verbatim>\<open>check_faces\<close> builds, \<^verbatim>\<open>compare_faces\<close> raises a TypeError at \<^verbatim>\<open>len()\<close>, for every face.
\<close>

lemma identify_on_list:
  assumes "om \<noteq> []"
  shows "identify c om (PyList (map snd om)) u =
     (let ds = map (\<lambda>kv. norm_diff c (snd kv) u) om;
          i = first_min_index ds;
          name = (if np_le (ds ! i) (Fin (6 / 10)) then fst (om ! i) else ''Unknown'')
      in (Inr name, [CompareFaces, FaceDistance, Report (ds ! i) name]))"
proof -
  let ?ds = "map (\<lambda>kv. norm_diff c (snd kv) u) om"
  from assms have ne: "?ds \<noteq> []" by simp
  then have "first_min_index ?ds < length ?ds" by (rule first_min_index_less)
  then have lt: "first_min_index ?ds < length om" by simp
  have fd: "face_distance (norm_diff c) (PyList (map snd om)) u = Inr ?ds"
    using assms by (simp add: face_distance_def py_bind_def comp_def)
  show ?thesis
    using assms lt
    by (simp add: identify_def compare_faces_def fd py_bind_def numpy_argmin_def py_getitem_def
        Let_def)
qed

lemma identify_empty_list_raises:
  "identify c [] (PyList []) u = (Inl ValueError, [CompareFaces, FaceDistance])"
  by (simp add: identify_def compare_faces_def face_distance_def py_bind_def numpy_argmin_def)

lemma identify_map_raises:
  "identify c om (PyMap ks) u = (Inl TypeError, [CompareFaces])"
  by (simp add: identify_def compare_faces_def face_distance_def py_bind_def)

lemma identify_all_map_raises:
  "us \<noteq> [] \<Longrightarrow> identify_all c om (PyMap ks) us ids tr = (Inl TypeError, tr @ [CompareFaces])"
  by (cases us) (simp_all add: identify_map_raises)

lemma check_faces_raises:
  "face_encodings c img (Some (face_locations c img)) \<noteq> [] \<Longrightarrow>
     check_faces c img m = (Inl TypeError, m, [CompareFaces])"
  by (simp add: check_faces_def identify_all_map_raises)

section \<open>The cache file\<close>

lemma tobytes_one: "tobytes [0x3FF0000000000000] = [0, 0, 0, 0, 0, 0, 0xF0, 0x3F]"
  by (simp add: tobytes_def float64_bytes_def upt_rec drop_bit_eq_div)

lemma add_cache_missing:
  "fs (os_path_join loc (name @ ''.encoding'')) = None \<Longrightarrow> add_cache name enc loc fs = Inl OSError"
  by (simp add: add_cache_def py_bind_def open_rb_plus_def)

lemma add_cache_existing:
  "fs (os_path_join loc (name @ ''.encoding'')) = Some old \<Longrightarrow>
     add_cache name enc loc fs = Inr (fs(os_path_join loc (name @ ''.encoding'') \<mapsto> tobytes enc))"
  by (simp add: add_cache_def Let_def py_bind_def open_rb_plus_def file_seek_def
      file_truncate_def file_write_def)

lemma add_cache_content:
  "add_cache name enc loc fs = Inr fs' \<Longrightarrow>
     fs' (os_path_join loc (name @ ''.encoding'')) = Some (tobytes enc)"
  by (auto simp: add_cache_def Let_def py_bind_def open_rb_plus_def file_seek_def
      file_truncate_def file_write_def split: option.splits)

section \<open>The directory scan\<close>






section \<open>Loading one file\<close>


lemma check_and_add_ok:
  assumes "check_and_add c cache loc p f (m, w) = (Inr (), m', w')"
    and "rindex f CHR ''.'' = Inr dot"
  shows "\<exists>v. m' = dict_set (take dot f) v m"
  using assms by (auto simp: check_and_add_def Let_def split: sum.splits prod.splits if_splits)



lemma load_images_file_ok:
  assumes "\<not> isdir env path"
    and "load_images c env path (Some m) cache loc w = (Inr (), m', w')"
    and "rindex (snd (os_path_split path)) CHR ''.'' = Inr dot"
  shows "\<exists>v. m' = dict_set (take dot (snd (os_path_split path))) v m"
  using assms
  by (auto simp: load_images_def Let_def split: sum.splits if_splits dest: check_and_add_ok)






section \<open>The claims\<close>

text \<open>
  C1. Claim: for a non-empty registry and every detected face, \<^verbatim>\<open>check_faces\<close> labels the
  face with the name of the known identity at minimum distance when its match flag is
  true, and with Unknown otherwise. On the registry A = [0, 0], B = [10, 10] and one face
  with the encoding [0.1, 0.1], the code does not return a label: \<^verbatim>\<open>known_encodings\<close> is a
  map object, and the first call of \<^verbatim>\<open>compare_faces\<close> raises a TypeError, whatever the
  distance function is.
\<close>

theorem check_faces_nearest_identity_raises:
  "check_faces (stub_collab [(0, 1, 1, 0)] [[0x3FB999999999999A, 0x3FB999999999999A]] nd) ()
     [(''A'', [0, 0]), (''B'', [0x4024000000000000, 0x4024000000000000])]
   = (Inl TypeError, [(''A'', [0, 0]), (''B'', [0x4024000000000000, 0x4024000000000000])],
      [CompareFaces])"
  by (simp add: check_faces_def stub_collab_def identify_def compare_faces_def
      face_distance_def py_bind_def)

text \<open>
  C2. Claim: matching against an empty registry returns one result labelled Unknown per
  detected face and raises no error. With an empty registry and one detected face the
  code raises: the TypeError of the map object (and \<open>identify_empty_list_raises\<close> shows
  the ValueError of \<^verbatim>\<open>numpy.argmin\<close> that a list of no encodings would meet).
\<close>

theorem check_faces_empty_registry_raises:
  "check_faces (stub_collab [(0, 1, 1, 0)] [[0, 0]] nd) () [] = (Inl TypeError, [], [CompareFaces])"
  by (simp add: check_faces_def stub_collab_def identify_def compare_faces_def
      face_distance_def py_bind_def)

text \<open>
  C3. Claim: writing an encoding E to the cache under a name and reading the entry of
  that name gives E back. For E = [1.0] and an existing entry, \<^verbatim>\<open>add_cache\<close> leaves the
  eight raw bytes of E in the file, and \<^verbatim>\<open>get_cached\<close> on that file raises a ValueError:
  \<^verbatim>\<open>numpy.load\<close> reads the \<^verbatim>\<open>.npy\<close> container, not raw bytes.
\<close>

theorem cache_round_trip_raises:
  "add_cache ''alice'' [0x3FF0000000000000] CACHE_LOCATION [''.cache/alice.encoding'' \<mapsto> old]
     = Inr [''.cache/alice.encoding'' \<mapsto> [0, 0, 0, 0, 0, 0, 0xF0, 0x3F]]
   \<and> get_cached parse ''alice'' CACHE_LOCATION
       [''.cache/alice.encoding'' \<mapsto> [0, 0, 0, 0, 0, 0, 0xF0, 0x3F]]
     = Inl ValueError"
  by (simp add: add_cache_def get_cached_def CACHE_LOCATION_def os_path_join_def py_bind_def
      open_rb_plus_def file_seek_def file_truncate_def file_write_def tobytes_one
      numpy_load_def startswith_def zip_prefix_def zip_suffix_def npy_magic_def)

text \<open>
  C4. Claim: with caching enabled, loading the same directory twice invokes the embedding
  collaborator exactly once per identity, the second load being cache reads alone. For
  the directory \<^verbatim>\<open>faces\<close> holding \<^verbatim>\<open>alice.jpg\<close>, both loads return an empty registry and
  leave the world as it was: the embedder is called zero times for alice, not once, and
  no cache entry is read or written. (Loading the file itself twice, \<open>load_alice_first\<close>
  and \<open>load_alice_second\<close>, calls the embedder both times: the entry is written under
  \<^verbatim>\<open>alice\<close> and looked up under \<^verbatim>\<open>alice.jpg\<close>.)
\<close>

theorem load_directory_twice_never_embeds:
  "load_images c (faces_dir [''alice.jpg'']) ''faces'' None True CACHE_LOCATION faces_world
     = (Inr (), [], faces_world)
   \<and> load_images c (faces_dir [''alice.jpg'']) ''faces'' (Some []) True CACHE_LOCATION faces_world
     = (Inr (), [], faces_world)
   \<and> embed_calls faces_world = []"
  by (simp add: load_images_def faces_dir_def visit_file_def rindex_def str_getitem_def IMG_EXTs_def
      faces_world_def)

text \<open>
  C5. Claim: in a directory, every file with the extension .jpg, .jpeg or .png is loaded
  into the registry under its name without the extension, and every other file is
  skipped silently. A directory holding \<^verbatim>\<open>alice.jpg\<close>, \<^verbatim>\<open>bob.jpeg\<close> and \<^verbatim>\<open>carol.png\<close> loads
  to an empty registry, and a directory holding a file without a dot (\<^verbatim>\<open>README\<close>) makes
  the load raise a ValueError.
\<close>

theorem load_directory_loads_no_image:
  "load_images c (faces_dir [''alice.jpg'', ''bob.jpeg'', ''carol.png'']) ''faces'' None cache loc w
     = (Inr (), [], w)
   \<and> load_images c (faces_dir [''README'']) ''faces'' None cache loc w = (Inl ValueError, [], w)"
  by (simp add: load_images_def faces_dir_def visit_file_def rindex_def str_getitem_def IMG_EXTs_def)

text \<open>
  C6. Claim: the cache write creates the entry \<^verbatim>\<open><cache_dir>/<N>.encoding\<close> when it does not
  exist and overwrites it when it does. When the cache holds no entry for alice,
  \<^verbatim>\<open>add_cache\<close> raises an OSError (mode \<^verbatim>\<open>'rb+'\<close> opens existing files only) and creates
  nothing; \<open>add_cache_existing\<close> is the half of the claim that holds.
\<close>

theorem add_cache_creates_no_entry:
  "add_cache ''alice'' [0x3FF0000000000000] CACHE_LOCATION [''.cache/bob.encoding'' \<mapsto> old]
     = Inl OSError"
  by (simp add: add_cache_def CACHE_LOCATION_def os_path_join_def py_bind_def open_rb_plus_def)

text \<open>
  C7. Claim: when two known identities are at the same minimum distance from a probe,
  the matcher selects the one inserted first. For A = [0.5, 0] and B = [0, 0.5], inserted
  in this order, and a probe [0, 0] at the distance 0.5 from both, the code selects no
  identity: it raises the TypeError of the map object. (\<open>first_min_index_first\<close> and
  \<open>first_min_index_least\<close> show that \<^verbatim>\<open>numpy.argmin\<close> itself returns the first minimum.)
\<close>

theorem check_faces_tie_raises:
  "check_faces (stub_collab [(0, 1, 1, 0)] [[0, 0]] nd) ()
     [(''A'', [0x3FE0000000000000, 0]), (''B'', [0, 0x3FE0000000000000])]
   = (Inl TypeError, [(''A'', [0x3FE0000000000000, 0]), (''B'', [0, 0x3FE0000000000000])],
      [CompareFaces])"
  by (simp add: check_faces_def stub_collab_def identify_def compare_faces_def
      face_distance_def py_bind_def)



text \<open>
  C9. \<^verbatim>\<open>check_faces\<close> never modifies the registry: whatever the collaborators, the image
  and the outcome (a result or an exception), the dict \<^verbatim>\<open>mappings\<close> holds after the call
  the items it held before, in the same order.
\<close>

theorem check_faces_keeps_registry: "fst (snd (check_faces c img mappings)) = mappings"
  by (simp add: check_faces_def Let_def split: prod.splits sum.splits)

text \<open>
  C10. When the detector finds no face in the image (no box, and no encoding for no
  box), \<^verbatim>\<open>check_faces\<close> returns two empty lists and raises nothing, for every registry,
  and makes no call that is handed the known encodings.
\<close>

theorem check_faces_no_faces:
  assumes "face_locations c img = []" and "face_encodings c img (Some []) = []"
  shows "check_faces c img mappings = (Inr ([], []), mappings, [])"
  using assms by (simp add: check_faces_def)

theorem check_faces_no_faces_witness:
  "check_faces (stub_collab [] [] (\<lambda>a b. Fin 0)) ()
       [(''A'', [0, 0]), (''B'', [0x4024000000000000, 0x4024000000000000])]
     = (Inr ([], []), [(''A'', [0, 0]), (''B'', [0x4024000000000000, 0x4024000000000000])], [])"
proof -
  have h1: "face_locations (stub_collab [] [] (\<lambda>a b. Fin 0)) () = []"
    by (simp add: stub_collab_def)
  have h2: "face_encodings (stub_collab [] [] (\<lambda>a b. Fin 0)) () (Some []) = []"
    by (simp add: stub_collab_def)
  show ?thesis by (rule check_faces_no_faces [OF h1 h2])
qed

end
